theory Spec2Isabelle
  imports Main
begin

chapter \<open>minilog-zero: a console logger with levels, prefixes and safe serialization\<close>

text \<open>
  A shallow embedding of the logger of \<^verbatim>\<open>src/index.ts\<close>: the tables \<^verbatim>\<open>COLORS\<close>,
  \<^verbatim>\<open>LEVELS\<close>, \<^verbatim>\<open>ICONS\<close>, \<^verbatim>\<open>LEVEL_COLORS\<close>, and the functions \<^verbatim>\<open>safeStringify\<close>,
  \<^verbatim>\<open>formatArgs\<close>, \<^verbatim>\<open>createLogger\<close> with its closures \<^verbatim>\<open>shouldLog\<close>, \<^verbatim>\<open>log\<close>, the five
  emit methods, \<^verbatim>\<open>create\<close>, \<^verbatim>\<open>setLevel\<close> and \<^verbatim>\<open>getLevel\<close>.

  JavaScript strings are modelled as \<^typ>\<open>string\<close>, holding the UTF-8 bytes of the text (the
  encoding of the source file and of the output streams). The program only concatenates and
  joins strings and upper-cases the five ASCII level names, so the encoding is never observed.
\<close>

section \<open>Strings\<close>

text \<open>\<^verbatim>\<open>Array.prototype.join\<close> on an array of strings.\<close>

fun join :: "string \<Rightarrow> string list \<Rightarrow> string" where
  "join sep [] = []"
| "join sep [x] = x"
| "join sep (x # y # ys) = x @ sep @ join sep (y # ys)"

text \<open>\<^verbatim>\<open>String.prototype.startsWith\<close> and \<^verbatim>\<open>String.prototype.includes\<close> (here \<open>contains\<close>).\<close>

fun startsWith :: "string \<Rightarrow> string \<Rightarrow> bool" where
  "startsWith s [] = True"
| "startsWith [] (c # cs) = False"
| "startsWith (d # ds) (c # cs) = (d = c \<and> startsWith ds cs)"

fun contains :: "string \<Rightarrow> string \<Rightarrow> bool" where
  "contains [] sub = (sub = [])"
| "contains (c # cs) sub = (startsWith (c # cs) sub \<or> contains cs sub)"

text \<open>\<^verbatim>\<open>String.prototype.toUpperCase\<close>, on the ASCII letters.\<close>

definition upper_char :: "char \<Rightarrow> char" where
  "upper_char c =
     (if (97::nat) \<le> of_char c \<and> of_char c \<le> (122::nat)
      then char_of (of_char c - (32::nat)) else c)"

definition toUpperCase :: "string \<Rightarrow> string" where
  "toUpperCase s = map upper_char s"

text \<open>Decimal rendering of integers (\<^verbatim>\<open>Number::toString\<close>, \<^verbatim>\<open>BigInt::toString\<close>).\<close>

definition digit_char :: "nat \<Rightarrow> char" where
  "digit_char d = ''0123456789'' ! (d mod 10)"

fun decimal :: "nat \<Rightarrow> string" where
  "decimal n = (if n < 10 then [digit_char n] else decimal (n div 10) @ [digit_char (n mod 10)])"

declare decimal.simps [simp del]

definition decimal_int :: "int \<Rightarrow> string" where
  "decimal_int i = (if i < 0 then CHR ''-'' # decimal (nat (- i)) else decimal (nat i))"

text \<open>Reading a digit string back, to state that \<^const>\<open>decimal\<close> is the decimal notation.\<close>

definition is_digit :: "char \<Rightarrow> bool" where
  "is_digit c = ((48::nat) \<le> of_char c \<and> of_char c \<le> (57::nat))"

definition digit_value :: "char \<Rightarrow> nat" where
  "digit_value c = of_char c - 48"

definition parse_decimal :: "string \<Rightarrow> nat" where
  "parse_decimal s = foldl (\<lambda>acc c. 10 * acc + digit_value c) 0 s"

section \<open>JavaScript values\<close>

text \<open>
  Objects live in a heap and are referred to by address, so that two references to one object,
  and an object that refers to itself, can be told from copies.

  The program never computes with a number, it only has the language convert it to text. A
  finite number is therefore given by the text \<^verbatim>\<open>Number::toString\<close> produces for it, which is
  different for different numbers: \<^verbatim>\<open>42\<close>, \<^verbatim>\<open>0.5\<close>, \<^verbatim>\<open>1e+21\<close>. The three other numbers are
  \<^verbatim>\<open>NaN\<close> and the two infinities.

  A function carries its source text and what a call of it does, return a value or throw;
  functions whose result depends on their arguments or that change objects are outside the
  model. An exception is a \<^verbatim>\<open>TypeError\<close> or \<^verbatim>\<open>RangeError\<close> of the language, or any other thrown
  value, given by its text.
\<close>

type_synonym addr = nat

datatype jsnum = NumFinite string | NumNaN | NumInfinity | NumNegInfinity

datatype jserror = TypeError string | RangeError string | Exception string

datatype jsval =
    JSUndefined
  | JSNull
  | JSBoolean bool
  | JSNumber jsnum
  | JSBigInt int
  | JSString string
  | JSSymbol string \<comment> \<open>the symbol's description\<close>
  | JSFunction string "jserror + jsval" \<comment> \<open>the source text, and what a call does\<close>
  | JSRef addr

text \<open>
  The kinds of object the program tells apart with \<^verbatim>\<open>instanceof\<close>. A plain object and the
  custom properties of an error are lists of own enumerable string-keyed properties, in the
  order in which the engine enumerates them. An error carries what \<^verbatim>\<open>value.name\<close>,
  \<^verbatim>\<open>value.message\<close> and \<^verbatim>\<open>value.stack\<close> read. A date carries what \<^verbatim>\<open>toISOString()\<close> returns,
  \<^const>\<open>None\<close> for an invalid date, on which the method throws, and what \<^verbatim>\<open>toString()\<close>
  returns, which depends on the host's time zone.
\<close>

datatype jsobj =
    PlainObject "(string \<times> jsval) list"
  | ArrayObject "jsval list"
  | ErrorObject string string "string option" "(string \<times> jsval) list"
  | MapObject "(jsval \<times> jsval) list"
  | SetObject "jsval list"
  | RegExpObject string string \<comment> \<open>source and flags\<close>
  | DateObject "string option" string

type_synonym heap = "jsobj list"

text \<open>
  Every reference of a running program points to a live object. An address beyond the heap,
  which no program state holds, reads as an empty object, so that the functions below are total.
\<close>

definition heap_get :: "heap \<Rightarrow> addr \<Rightarrow> jsobj" where
  "heap_get h a = (if a < length h then h ! a else PlainObject [])"

definition unvisited :: "heap \<Rightarrow> addr list \<Rightarrow> nat" where
  "unvisited h stack = card ({..<length h} - set stack)"

lemma unvisited_push:
  "a < length h \<Longrightarrow> a \<notin> set stack \<Longrightarrow> unvisited h (a # stack) < unvisited h stack"
  unfolding unvisited_def by (rule psubset_card_mono) auto

lemma unvisited_dangling: "\<not> a < length h \<Longrightarrow> unvisited h (a # stack) = unvisited h stack"
  unfolding unvisited_def by (rule arg_cong [where f = card]) auto

lemma heap_get_dangling: "\<not> a < length h \<Longrightarrow> heap_get h a = PlainObject []"
  by (simp add: heap_get_def)

subsection \<open>Conversion to text: \<^verbatim>\<open>String(value)\<close>\<close>

definition Number_toString :: "jsnum \<Rightarrow> string" where
  "Number_toString x =
     (case x of
        NumFinite t \<Rightarrow> t
      | NumNaN \<Rightarrow> ''NaN''
      | NumInfinity \<Rightarrow> ''Infinity''
      | NumNegInfinity \<Rightarrow> ''-Infinity'')"

definition BigInt_toString :: "int \<Rightarrow> string" where
  "BigInt_toString i = decimal_int i"

text \<open>\<^verbatim>\<open>Error.prototype.toString\<close>.\<close>

definition Error_toString :: "string \<Rightarrow> string \<Rightarrow> string" where
  "Error_toString name msg =
     (if name = [] then msg else if msg = [] then name else name @ '': '' @ msg)"

text \<open>The own enumerable string-keyed properties of an object.\<close>

definition own_enumerable :: "jsobj \<Rightarrow> (string \<times> jsval) list" where
  "own_enumerable obj =
     (case obj of
        PlainObject ps \<Rightarrow> ps
      | ErrorObject name msg stk ps \<Rightarrow> ps
      | _ \<Rightarrow> [])"

text \<open>
  The method of an object by its name, when the object has a property of its own with that
  name whose value is a function: what a call of it does.
\<close>

definition get_method :: "(string \<times> jsval) list \<Rightarrow> string \<Rightarrow> (jserror + jsval) option" where
  "get_method ps name =
     (case map_of ps name of
        Some (JSFunction src outcome) \<Rightarrow> Some outcome
      | _ \<Rightarrow> None)"

definition is_primitive :: "jsval \<Rightarrow> bool" where
  "is_primitive v = (case v of JSRef a \<Rightarrow> False | JSFunction src outcome \<Rightarrow> False | _ \<Rightarrow> True)"

text \<open>
  \<^verbatim>\<open>ToString\<close> of the values that are not objects. A symbol cannot be converted and throws;
  \<^verbatim>\<open>String(symbol)\<close> itself, the case \<open>outer = True\<close>, gives the symbol's descriptive text.
\<close>

definition primitive_text :: "bool \<Rightarrow> jsval \<Rightarrow> jserror + string" where
  "primitive_text outer v =
     (case v of
        JSUndefined \<Rightarrow> Inr ''undefined''
      | JSNull \<Rightarrow> Inr ''null''
      | JSBoolean b \<Rightarrow> Inr (if b then ''true'' else ''false'')
      | JSNumber x \<Rightarrow> Inr (Number_toString x)
      | JSBigInt i \<Rightarrow> Inr (BigInt_toString i)
      | JSString s \<Rightarrow> Inr s
      | JSSymbol d \<Rightarrow>
          (if outer then Inr (''Symbol('' @ d @ '')'')
           else Inl (TypeError ''Cannot convert a Symbol value to a string''))
      | JSFunction src outcome \<Rightarrow> Inr src
      | JSRef a \<Rightarrow> Inl (TypeError ''Cannot convert object to primitive value''))"

text \<open>
  \<^verbatim>\<open>OrdinaryToPrimitive\<close> with the hint string, for an object with the properties \<open>ps\<close> whose
  inherited \<^verbatim>\<open>toString\<close> gives \<open>inherited\<close>: a \<^verbatim>\<open>toString\<close> of the object's own is called
  instead, then \<^verbatim>\<open>valueOf\<close>, until one returns a value that is not an object. The inherited
  \<^verbatim>\<open>valueOf\<close> returns the object.
\<close>

definition no_primitive :: jserror where
  "no_primitive = TypeError ''Cannot convert object to primitive value''"

definition call_valueOf :: "(string \<times> jsval) list \<Rightarrow> jserror + jsval" where
  "call_valueOf ps =
     (case get_method ps ''valueOf'' of
        Some (Inl e) \<Rightarrow> Inl e
      | Some (Inr r) \<Rightarrow> if is_primitive r then Inr r else Inl no_primitive
      | None \<Rightarrow> Inl no_primitive)"

definition OrdinaryToPrimitive :: "(string \<times> jsval) list \<Rightarrow> string \<Rightarrow> jserror + jsval" where
  "OrdinaryToPrimitive ps inherited =
     (case map_of ps ''toString'' of
        None \<Rightarrow> Inr (JSString inherited)
      | Some (JSFunction src (Inl e)) \<Rightarrow> Inl e
      | Some (JSFunction src (Inr r)) \<Rightarrow> if is_primitive r then Inr r else call_valueOf ps
      | Some x \<Rightarrow> call_valueOf ps)"

definition object_text :: "(string \<times> jsval) list \<Rightarrow> string \<Rightarrow> jserror + string" where
  "object_text ps inherited =
     (case OrdinaryToPrimitive ps inherited of
        Inl e \<Rightarrow> Inl e
      | Inr p \<Rightarrow> primitive_text False p)"

text \<open>
  \<^verbatim>\<open>ToString\<close> of the language, on the values of the model. The text of an array is the join of
  its elements' texts, with \<^verbatim>\<open>undefined\<close> and \<^verbatim>\<open>null\<close> as the empty text; an array met again
  inside itself reads as the empty text (the engines' guard against cyclic arrays).
\<close>

function (sequential) ToString :: "heap \<Rightarrow> addr list \<Rightarrow> bool \<Rightarrow> jsval \<Rightarrow> jserror + string"
  and Array_join :: "heap \<Rightarrow> addr list \<Rightarrow> jsval list \<Rightarrow> jserror + string list"
where
  "ToString h stack outer v =
     (case v of
        JSRef a \<Rightarrow>
          (case heap_get h a of
             PlainObject ps \<Rightarrow> object_text ps ''[object Object]''
           | ArrayObject vs \<Rightarrow>
               (if a \<in> set stack then Inr []
                else (case Array_join h (a # stack) vs of
                        Inl e \<Rightarrow> Inl e
                      | Inr texts \<Rightarrow> Inr (join '','' texts)))
           | ErrorObject name msg stk ps \<Rightarrow> object_text ps (Error_toString name msg)
           | MapObject es \<Rightarrow> Inr ''[object Map]''
           | SetObject vs \<Rightarrow> Inr ''[object Set]''
           | RegExpObject src flags \<Rightarrow> Inr (''/'' @ src @ ''/'' @ flags)
           | DateObject t text \<Rightarrow> Inr text)
      | _ \<Rightarrow> primitive_text outer v)"
| "Array_join h stack [] = Inr []"
| "Array_join h stack (v # vs) =
     (case (if v = JSUndefined \<or> v = JSNull then Inr [] else ToString h stack False v) of
        Inl e \<Rightarrow> Inl e
      | Inr t \<Rightarrow> (case Array_join h stack vs of Inl e \<Rightarrow> Inl e | Inr ts \<Rightarrow> Inr (t # ts)))"
  by pat_completeness auto

termination
  by (relation "inv_image (less_than <*lex*> less_than)
       (\<lambda>x. case x of
          Inl (h, stack, outer, v) \<Rightarrow> (unvisited h stack, 0)
        | Inr (h, stack, vs) \<Rightarrow> (unvisited h stack, Suc (length vs)))")
     (auto simp: unvisited_push heap_get_def split: if_splits)

definition String_conv :: "heap \<Rightarrow> jsval \<Rightarrow> jserror + string" where
  "String_conv h v = ToString h [] True v"

section \<open>\<^verbatim>\<open>JSON.stringify\<close>\<close>

text \<open>
  The serializer of the language (ECMAScript, \<^verbatim>\<open>JSON.stringify\<close> with its abstract operations
  \<^verbatim>\<open>QuoteJSONString\<close>, \<^verbatim>\<open>SerializeJSONProperty\<close>, \<^verbatim>\<open>SerializeJSONObject\<close> and
  \<^verbatim>\<open>SerializeJSONArray\<close>), which the program calls with and without a replacer function.
\<close>

definition hex_char :: "nat \<Rightarrow> char" where
  "hex_char d = ''0123456789abcdef'' ! (d mod 16)"

definition quote_char :: "char \<Rightarrow> string" where
  "quote_char c =
     (let n = (of_char c :: nat) in
      if n = 8 then [CHR 0x5C, CHR ''b'']
      else if n = 9 then [CHR 0x5C, CHR ''t'']
      else if n = 10 then [CHR 0x5C, CHR ''n'']
      else if n = 12 then [CHR 0x5C, CHR ''f'']
      else if n = 13 then [CHR 0x5C, CHR ''r'']
      else if n = 34 then [CHR 0x5C, CHR 0x22]
      else if n = 92 then [CHR 0x5C, CHR 0x5C]
      else if n < 32 then [CHR 0x5C, CHR ''u'', CHR ''0'', CHR ''0'', hex_char (n div 16), hex_char n]
      else [c])"

definition QuoteJSONString :: "string \<Rightarrow> string" where
  "QuoteJSONString s = CHR 0x22 # concat (map quote_char s) @ [CHR 0x22]"

text \<open>
  The \<^verbatim>\<open>toJSON\<close> method, which the serializer calls before the replacer sees the value: that
  of a date gives the ISO text, and \<^verbatim>\<open>null\<close> for an invalid date; any other object has the
  method when it has a property \<^verbatim>\<open>toJSON\<close> of its own whose value is a function, and the
  serializer goes on with what the call returns, or throws what it throws.
\<close>

definition toJSON :: "heap \<Rightarrow> jsval \<Rightarrow> jserror + jsval" where
  "toJSON h v =
     (case v of
        JSRef a \<Rightarrow>
          (case heap_get h a of
             DateObject None text \<Rightarrow> Inr JSNull
           | DateObject (Some t) text \<Rightarrow> Inr (JSString t)
           | obj \<Rightarrow>
               (case get_method (own_enumerable obj) ''toJSON'' of
                  Some outcome \<Rightarrow> outcome
                | None \<Rightarrow> Inr v))
      | _ \<Rightarrow> Inr v)"

definition object_final :: "string \<Rightarrow> string \<Rightarrow> string \<Rightarrow> string list \<Rightarrow> string" where
  "object_final gap stepback indent partial =
     (if partial = [] then ''{}''
      else if gap = [] then ''{'' @ join '','' partial @ ''}''
      else ''{'' @ [CHR 0x0A] @ indent @ join ('','' @ [CHR 0x0A] @ indent) partial
             @ [CHR 0x0A] @ stepback @ ''}'')"

definition array_final :: "string \<Rightarrow> string \<Rightarrow> string \<Rightarrow> string list \<Rightarrow> string" where
  "array_final gap stepback indent partial =
     (if partial = [] then ''[]''
      else if gap = [] then ''['' @ join '','' partial @ '']''
      else ''['' @ [CHR 0x0A] @ indent @ join ('','' @ [CHR 0x0A] @ indent) partial
             @ [CHR 0x0A] @ stepback @ '']'')"

definition member :: "string \<Rightarrow> string \<Rightarrow> string \<Rightarrow> string" where
  "member gap key strP = QuoteJSONString key @ '':'' @ (if gap \<noteq> [] then '' '' else []) @ strP"

text \<open>
  A replacer function is a function of the value (the program's replacer ignores its key
  argument) that may keep a state of its own, threaded through the traversal in the order
  of the calls: \<open>'s\<close> is the state, here the set of objects the replacer has seen.

  \<^verbatim>\<open>SerializeJSONProperty\<close> returns the text, or \<^const>\<open>None\<close> for \<^verbatim>\<open>undefined\<close> (a property
  that is left out). \<open>stack\<close> is the serializer's own list of the objects being serialized: an
  object met again inside itself is a \<^verbatim>\<open>TypeError\<close>, as is a BigInt; what \<^verbatim>\<open>toJSON\<close> throws
  is passed on. The loops of
  \<^verbatim>\<open>SerializeJSONObject\<close> over the properties and of \<^verbatim>\<open>SerializeJSONArray\<close> over the elements
  are the two list functions.
\<close>

type_synonym 's replacer = "'s \<Rightarrow> jsval \<Rightarrow> jsval \<times> 's"

function (sequential)
  SerializeJSONProperty ::
    "heap \<Rightarrow> 's replacer option \<Rightarrow> string \<Rightarrow> addr list \<Rightarrow> string \<Rightarrow> 's \<Rightarrow> jsval
      \<Rightarrow> jserror + (string option \<times> 's)"
and SerializeJSONObject ::
    "heap \<Rightarrow> 's replacer option \<Rightarrow> string \<Rightarrow> addr list \<Rightarrow> string \<Rightarrow> 's \<Rightarrow> (string \<times> jsval) list
      \<Rightarrow> jserror + (string list \<times> 's)"
and SerializeJSONArray ::
    "heap \<Rightarrow> 's replacer option \<Rightarrow> string \<Rightarrow> addr list \<Rightarrow> string \<Rightarrow> 's \<Rightarrow> jsval list
      \<Rightarrow> jserror + (string list \<times> 's)"
where
  "SerializeJSONProperty h rep gap stack indent st v0 =
     (case toJSON h v0 of
        Inl e \<Rightarrow> Inl e
      | Inr v1 \<Rightarrow>
     (case (case rep of None \<Rightarrow> (v1, st) | Some r \<Rightarrow> r st v1) of
        (JSNull, st1) \<Rightarrow> Inr (Some ''null'', st1)
      | (JSBoolean b, st1) \<Rightarrow> Inr (Some (if b then ''true'' else ''false''), st1)
      | (JSString s, st1) \<Rightarrow> Inr (Some (QuoteJSONString s), st1)
      | (JSNumber x, st1) \<Rightarrow>
          Inr (Some (case x of NumFinite t \<Rightarrow> Number_toString x | _ \<Rightarrow> ''null''), st1)
      | (JSBigInt i, st1) \<Rightarrow> Inl (TypeError ''Do not know how to serialize a BigInt'')
      | (JSRef a, st1) \<Rightarrow>
          (if a \<in> set stack then Inl (TypeError ''Converting circular structure to JSON'')
           else (case heap_get h a of
                   ArrayObject vs \<Rightarrow>
                     (case SerializeJSONArray h rep gap (a # stack) (indent @ gap) st1 vs of
                        Inl e \<Rightarrow> Inl e
                      | Inr (partial, st2) \<Rightarrow>
                          Inr (Some (array_final gap indent (indent @ gap) partial), st2))
                 | obj \<Rightarrow>
                     (case SerializeJSONObject h rep gap (a # stack) (indent @ gap) st1
                             (own_enumerable obj) of
                        Inl e \<Rightarrow> Inl e
                      | Inr (partial, st2) \<Rightarrow>
                          Inr (Some (object_final gap indent (indent @ gap) partial), st2))))
      | (_, st1) \<Rightarrow> Inr (None, st1)))"
| "SerializeJSONObject h rep gap stack indent st [] = Inr ([], st)"
| "SerializeJSONObject h rep gap stack indent st ((k, v) # ps) =
     (case SerializeJSONProperty h rep gap stack indent st v of
        Inl e \<Rightarrow> Inl e
      | Inr (strP, st1) \<Rightarrow>
          (case SerializeJSONObject h rep gap stack indent st1 ps of
             Inl e \<Rightarrow> Inl e
           | Inr (partial, st2) \<Rightarrow>
               Inr ((case strP of None \<Rightarrow> [] | Some s \<Rightarrow> [member gap k s]) @ partial, st2)))"
| "SerializeJSONArray h rep gap stack indent st [] = Inr ([], st)"
| "SerializeJSONArray h rep gap stack indent st (v # vs) =
     (case SerializeJSONProperty h rep gap stack indent st v of
        Inl e \<Rightarrow> Inl e
      | Inr (strP, st1) \<Rightarrow>
          (case SerializeJSONArray h rep gap stack indent st1 vs of
             Inl e \<Rightarrow> Inl e
           | Inr (partial, st2) \<Rightarrow>
               Inr ((case strP of None \<Rightarrow> ''null'' | Some s \<Rightarrow> s) # partial, st2)))"
  by pat_completeness auto

termination
  by (relation "inv_image (less_than <*lex*> less_than)
       (\<lambda>x. case x of
          Inl (h, rep, gap, stack, indent, st, v) \<Rightarrow> (unvisited h stack, 1)
        | Inr (Inl (h, rep, gap, stack, indent, st, ps)) \<Rightarrow> (unvisited h stack, 2 * length ps)
        | Inr (Inr (h, rep, gap, stack, indent, st, vs)) \<Rightarrow> (unvisited h stack, 2 * length vs))")
     (auto simp: unvisited_push unvisited_dangling heap_get_def own_enumerable_def
           split: if_splits)

declare SerializeJSONProperty.simps [simp del]

text \<open>
  \<^verbatim>\<open>JSON.stringify(value, replacer, space)\<close> with a numeric \<open>space\<close>: the indentation unit is
  that many spaces, at most ten; the result is \<^const>\<open>None\<close> when the value serializes to
  \<^verbatim>\<open>undefined\<close>. \<open>st\<close> is the state the replacer starts from.
\<close>

definition JSON_stringify ::
  "heap \<Rightarrow> jsval \<Rightarrow> 's replacer option \<Rightarrow> 's \<Rightarrow> nat \<Rightarrow> jserror + string option" where
  "JSON_stringify h v rep st space =
     (case SerializeJSONProperty h rep (replicate (min space 10) CHR '' '') [] [] st v of
        Inl e \<Rightarrow> Inl e
      | Inr (text, st') \<Rightarrow> Inr text)"

section \<open>\<^verbatim>\<open>safeStringify\<close> and \<^verbatim>\<open>formatArgs\<close>\<close>

text \<open>
  Assigning a property of an object, \<^verbatim>\<open>obj[key] = v\<close>: an existing key keeps its place; a new
  key goes to the end, except that a key that is an array index is enumerated before the other
  keys, in ascending order. (Assigning the key \<^verbatim>\<open>__proto__\<close>, which changes the prototype
  of the object instead, is outside the model.)
\<close>

definition is_array_index :: "string \<Rightarrow> bool" where
  "is_array_index k =
     (k \<noteq> [] \<and> list_all is_digit k \<and> decimal (parse_decimal k) = k
      \<and> parse_decimal k < 4294967295)"

fun insert_index :: "string \<Rightarrow> jsval \<Rightarrow> (string \<times> jsval) list \<Rightarrow> (string \<times> jsval) list" where
  "insert_index k v [] = [(k, v)]"
| "insert_index k v ((k', v') # ps) =
     (if is_array_index k' \<and> parse_decimal k' < parse_decimal k
      then (k', v') # insert_index k v ps
      else (k, v) # (k', v') # ps)"

definition set_property :: "(string \<times> jsval) list \<Rightarrow> string \<Rightarrow> jsval \<Rightarrow> (string \<times> jsval) list" where
  "set_property ps k v =
     (if map_of ps k \<noteq> None then map (\<lambda>(k', v'). if k' = k then (k', v) else (k', v')) ps
      else if is_array_index k then insert_index k v ps
      else ps @ [(k, v)])"

text \<open>
  \<^verbatim>\<open>Object.fromEntries(map)\<close>: each key becomes a property key, a string unless the key is a
  symbol; a property keyed by a symbol is not among the string-keyed properties.
\<close>

fun Object_fromEntries ::
  "heap \<Rightarrow> (jsval \<times> jsval) list \<Rightarrow> (string \<times> jsval) list \<Rightarrow> jserror + (string \<times> jsval) list" where
  "Object_fromEntries h [] obj = Inr obj"
| "Object_fromEntries h ((k, v) # es) obj =
     (case k of
        JSSymbol d \<Rightarrow> Object_fromEntries h es obj
      | _ \<Rightarrow>
          (case ToString h [] False k of
             Inl e \<Rightarrow> Inl e
           | Inr key \<Rightarrow> Object_fromEntries h es (set_property obj key v)))"

text \<open>A value inside a template literal: \<^verbatim>\<open>undefined\<close> prints as such.\<close>

definition template :: "string option \<Rightarrow> string" where
  "template t = (case t of None \<Rightarrow> ''undefined'' | Some s \<Rightarrow> s)"

text \<open>
  The replacer of \<^verbatim>\<open>safeStringify\<close>, a closure over the \<^verbatim>\<open>WeakSet\<close> \<open>seen\<close>:
  \<^verbatim>\<open>
  (_key, val) => {
    if (typeof val === 'bigint') { return val.toString() + 'n'; }
    if (typeof val === 'object' && val !== null) {
      if (seen.has(val)) { return '[Circular]'; }
      seen.add(val);
    }
    return val;
  }\<close>
\<close>

definition replacer :: "addr set replacer" where
  "replacer seen val =
     (case val of
        JSBigInt i \<Rightarrow> (JSString (BigInt_toString i @ ''n''), seen)
      | JSRef a \<Rightarrow> (if a \<in> seen then (JSString ''[Circular]'', seen) else (val, insert a seen))
      | _ \<Rightarrow> (val, seen))"


text \<open>
  \<^verbatim>\<open>safeStringify(value)\<close>. The object built for an error, the object made of a map's entries
  and the array made of a set's members are new objects: they are allocated at the end of the
  heap. The result is \<^const>\<open>None\<close> where \<^verbatim>\<open>JSON.stringify\<close> returns \<^verbatim>\<open>undefined\<close>; a
  thrown exception is \<^const>\<open>Inl\<close>. Only the last \<^verbatim>\<open>JSON.stringify\<close>, of the general object
  case, stands in a \<^verbatim>\<open>try\<close> block.
\<close>

definition safeStringify :: "heap \<Rightarrow> jsval \<Rightarrow> jserror + string option" where
  "safeStringify h v =
     (case v of
        JSNull \<Rightarrow> Inr (Some ''null'')
      | JSUndefined \<Rightarrow> Inr (Some ''undefined'')
      | JSRef a \<Rightarrow>
          (case heap_get h a of
             ErrorObject name msg stk ps \<Rightarrow>
               (let errorObj = [(''name'', JSString name), (''message'', JSString msg)];
                    errorObj1 = (case stk of
                                   None \<Rightarrow> errorObj
                                 | Some s \<Rightarrow> if s \<noteq> [] then set_property errorObj ''stack'' (JSString s)
                                            else errorObj);
                    errorObj2 = foldl (\<lambda>obj (key, x). set_property obj key x) errorObj1 ps
                in JSON_stringify (h @ [PlainObject errorObj2]) (JSRef (length h))
                     (None :: unit replacer option) () 2)
           | MapObject es \<Rightarrow>
               (case Object_fromEntries h es [] of
                  Inl e \<Rightarrow> Inl e
                | Inr obj \<Rightarrow>
                    (case JSON_stringify (h @ [PlainObject obj]) (JSRef (length h))
                            (None :: unit replacer option) () 2 of
                       Inl e \<Rightarrow> Inl e
                     | Inr t \<Rightarrow> Inr (Some (''Map('' @ decimal (length es) @ '') '' @ template t))))
           | SetObject vs \<Rightarrow>
               (case JSON_stringify (h @ [ArrayObject vs]) (JSRef (length h))
                       (None :: unit replacer option) () 2 of
                  Inl e \<Rightarrow> Inl e
                | Inr t \<Rightarrow> Inr (Some (''Set('' @ decimal (length vs) @ '') '' @ template t)))
           | RegExpObject src flags \<Rightarrow> Inr (Some (''/'' @ src @ ''/'' @ flags))
           | DateObject t text \<Rightarrow>
               (case t of
                  None \<Rightarrow> Inl (RangeError ''Invalid time value'')
                | Some s \<Rightarrow> Inr (Some s))
           | _ \<Rightarrow>
               (case JSON_stringify h v (Some replacer) {} 2 of
                  Inr t \<Rightarrow> Inr t
                | Inl e \<Rightarrow> map_sum id Some (String_conv h v)))
      | JSBigInt i \<Rightarrow> Inr (Some (BigInt_toString i @ ''n''))
      | _ \<Rightarrow> map_sum id Some (String_conv h v))"

text \<open>
  \<^verbatim>\<open>formatArgs(args)\<close>: \<^verbatim>\<open>map\<close> converts the arguments from left to right, a string as it is,
  and the first exception ends it; \<^verbatim>\<open>join\<close> reads \<^verbatim>\<open>undefined\<close> as the empty text.
\<close>

fun map_args :: "heap \<Rightarrow> jsval list \<Rightarrow> jserror + string option list" where
  "map_args h [] = Inr []"
| "map_args h (arg # args) =
     (case (case arg of JSString s \<Rightarrow> Inr (Some s) | _ \<Rightarrow> safeStringify h arg) of
        Inl e \<Rightarrow> Inl e
      | Inr t \<Rightarrow> (case map_args h args of Inl e \<Rightarrow> Inl e | Inr ts \<Rightarrow> Inr (t # ts)))"

definition formatArgs :: "heap \<Rightarrow> jsval list \<Rightarrow> jserror + string" where
  "formatArgs h args =
     (case map_args h args of
        Inl e \<Rightarrow> Inl e
      | Inr ts \<Rightarrow> Inr (join '' '' (map (\<lambda>t. case t of None \<Rightarrow> [] | Some s \<Rightarrow> s) ts)))"

section \<open>The logger\<close>

subsection \<open>Tables\<close>

datatype LogLevel = debug | info | warn | error | success

definition level_name :: "LogLevel \<Rightarrow> string" where
  "level_name l =
     (case l of debug \<Rightarrow> ''debug'' | info \<Rightarrow> ''info'' | warn \<Rightarrow> ''warn''
      | error \<Rightarrow> ''error'' | success \<Rightarrow> ''success'')"

definition ESC :: char where
  "ESC = CHR 0x1B"

definition COLORS_reset :: string where "COLORS_reset = ESC # ''[0m''"
definition COLORS_gray :: string where "COLORS_gray = ESC # ''[90m''"
definition COLORS_cyan :: string where "COLORS_cyan = ESC # ''[36m''"
definition COLORS_yellow :: string where "COLORS_yellow = ESC # ''[33m''"
definition COLORS_red :: string where "COLORS_red = ESC # ''[31m''"
definition COLORS_green :: string where "COLORS_green = ESC # ''[32m''"

text \<open>The own properties of \<^verbatim>\<open>LEVELS\<close>, in the order of the object literal.\<close>

definition LEVELS :: "(string \<times> nat) list" where
  "LEVELS = [(''debug'', 0), (''info'', 1), (''warn'', 2), (''error'', 3), (''success'', 3)]"

text \<open>The icons, as the UTF-8 bytes of the source file's literals.\<close>

definition ICONS :: "LogLevel \<Rightarrow> string" where
  "ICONS l =
     (case l of
        debug \<Rightarrow> [CHR 0xF0, CHR 0x9F, CHR 0x94, CHR 0x8D]
      | info \<Rightarrow> [CHR 0xE2, CHR 0x84, CHR 0xB9, CHR 0xEF, CHR 0xB8, CHR 0x8F]
      | warn \<Rightarrow> [CHR 0xE2, CHR 0x9A, CHR 0xA0, CHR 0xEF, CHR 0xB8, CHR 0x8F]
      | error \<Rightarrow> [CHR 0xE2, CHR 0x9D, CHR 0x8C]
      | success \<Rightarrow> [CHR 0xE2, CHR 0x9C, CHR 0x85])"

definition LEVEL_COLORS :: "LogLevel \<Rightarrow> string" where
  "LEVEL_COLORS l =
     (case l of debug \<Rightarrow> COLORS_gray | info \<Rightarrow> COLORS_cyan | warn \<Rightarrow> COLORS_yellow
      | error \<Rightarrow> COLORS_red | success \<Rightarrow> COLORS_green)"

text \<open>
  \<^verbatim>\<open>LEVELS\<close> is an ordinary object: reading a property and the \<^verbatim>\<open>in\<close> operator also find what
  it inherits from \<^verbatim>\<open>Object.prototype\<close>, whose property names (those of the language
  standard) are listed here. What is read there is a function or an object; a name found
  nowhere reads \<^verbatim>\<open>undefined\<close>.
\<close>

definition Object_prototype_keys :: "string list" where
  "Object_prototype_keys =
     [''constructor'', ''__defineGetter__'', ''__defineSetter__'', ''hasOwnProperty'',
      ''__lookupGetter__'', ''__lookupSetter__'', ''isPrototypeOf'', ''propertyIsEnumerable'',
      ''toString'', ''valueOf'', ''__proto__'', ''toLocaleString'']"

datatype property_value = OwnNumber nat | Inherited | Undefined

definition LEVELS_get :: "string \<Rightarrow> property_value" where
  "LEVELS_get k =
     (case map_of LEVELS k of
        Some n \<Rightarrow> OwnNumber n
      | None \<Rightarrow> if k \<in> set Object_prototype_keys then Inherited else Undefined)"

definition in_LEVELS :: "string \<Rightarrow> bool" where
  "in_LEVELS k = (map_of LEVELS k \<noteq> None \<or> k \<in> set Object_prototype_keys)"

text \<open>
  \<^verbatim>\<open>a >= b\<close> converts both sides to numbers and is false when either is \<^verbatim>\<open>NaN\<close>, which is
  what \<^verbatim>\<open>undefined\<close>, a function and a plain object convert to.
\<close>

definition ToNumber :: "property_value \<Rightarrow> nat option" where
  "ToNumber p = (case p of OwnNumber n \<Rightarrow> Some n | _ \<Rightarrow> None)"

definition greater_equal :: "property_value \<Rightarrow> property_value \<Rightarrow> bool" where
  "greater_equal a b =
     (case (ToNumber a, ToNumber b) of (Some x, Some y) \<Rightarrow> y \<le> x | _ \<Rightarrow> False)"

subsection \<open>Options and instances\<close>

text \<open>
  A field of an options object is absent, present with the value \<^verbatim>\<open>undefined\<close> (or \<^verbatim>\<open>null\<close>),
  or present with a value. \<^verbatim>\<open>x ?? d\<close> takes the default in the first two cases; an object
  spread \<^verbatim>\<open>{...a, ...b}\<close> takes from \<^verbatim>\<open>b\<close> every field that is present there, whatever its
  value. The level of the options is a string: the declared type \<^verbatim>\<open>LogLevel\<close> is not checked
  when the program runs, and the test suite passes other strings through a cast.
\<close>

datatype 'a field = Absent | Nullish | Given 'a

record LoggerOptions =
  opt_prefix :: "string field"
  opt_timestamp :: "bool field"
  opt_level :: "string field"
  opt_icons :: "bool field"

definition nullish_coalesce :: "'a field \<Rightarrow> 'a \<Rightarrow> 'a" where
  "nullish_coalesce x d = (case x of Given v \<Rightarrow> v | _ \<Rightarrow> d)"

definition empty_options :: LoggerOptions where
  "empty_options =
     \<lparr>opt_prefix = Absent, opt_timestamp = Absent, opt_level = Absent, opt_icons = Absent\<rparr>"

definition spread_field :: "'a field \<Rightarrow> 'a field \<Rightarrow> 'a field" where
  "spread_field x y = (case y of Absent \<Rightarrow> x | _ \<Rightarrow> y)"

definition spread :: "LoggerOptions \<Rightarrow> LoggerOptions option \<Rightarrow> LoggerOptions" where
  "spread a b =
     (case b of
        None \<Rightarrow> a
      | Some b' \<Rightarrow>
          \<lparr>opt_prefix = spread_field (opt_prefix a) (opt_prefix b'),
           opt_timestamp = spread_field (opt_timestamp a) (opt_timestamp b'),
           opt_level = spread_field (opt_level a) (opt_level b'),
           opt_icons = spread_field (opt_icons a) (opt_icons b')\<rparr>)"

text \<open>
  The variables that the closures of one \<^verbatim>\<open>createLogger\<close> call share: \<^verbatim>\<open>currentLevel\<close>, the
  only one declared with \<^verbatim>\<open>let\<close>, and the constants \<^verbatim>\<open>prefix\<close>, \<^verbatim>\<open>showTimestamp\<close> and
  \<^verbatim>\<open>showIcons\<close>.
\<close>

record closure =
  currentLevel :: string
  prefix :: string
  showTimestamp :: bool
  showIcons :: bool

text \<open>
  The state of the program: the logger instances created so far (a logger is the index of its
  closure), the calls made to the console, the text \<^verbatim>\<open>new Date().toISOString()\<close> gives at
  this moment, and the heap that holds the objects passed as arguments. A logger object is
  made with the \<^verbatim>\<open>create\<close> method of lines 226 to 232; the state lists the loggers whose
  \<^verbatim>\<open>create\<close> property has been assigned \<^verbatim>\<open>createLogger\<close> since, as the module does with the
  default logger.
\<close>

datatype console_method = console_log | console_warn | console_error

record world =
  instances :: "closure list"
  console :: "(console_method \<times> string) list"
  now :: string
  heap :: "jsobj list"
  create_replaced :: "nat list"

text \<open>
  Under Node.js \<^verbatim>\<open>console.log\<close> prints to the standard output, \<^verbatim>\<open>console.warn\<close> and
  \<^verbatim>\<open>console.error\<close> to the standard error.
\<close>

datatype stream = stdout | stderr

definition stream_of :: "console_method \<Rightarrow> stream" where
  "stream_of m = (case m of console_log \<Rightarrow> stdout | console_warn \<Rightarrow> stderr | console_error \<Rightarrow> stderr)"

definition console_call :: "console_method \<Rightarrow> string \<Rightarrow> world \<Rightarrow> world" where
  "console_call m line w = w\<lparr>console := console w @ [(m, line)]\<rparr>"

subsection \<open>\<^verbatim>\<open>createLogger\<close> and the methods of a logger\<close>

definition createLogger :: "LoggerOptions option \<Rightarrow> world \<Rightarrow> nat \<times> world" where
  "createLogger options w =
     (let opts = (case options of None \<Rightarrow> empty_options | Some opts \<Rightarrow> opts);
          c = \<lparr>currentLevel = nullish_coalesce (opt_level opts) ''debug'',
               prefix = nullish_coalesce (opt_prefix opts) [],
               showTimestamp = nullish_coalesce (opt_timestamp opts) False,
               showIcons = nullish_coalesce (opt_icons opts) True\<rparr>
      in (length (instances w), w\<lparr>instances := instances w @ [c]\<rparr>))"

definition shouldLog :: "closure \<Rightarrow> LogLevel \<Rightarrow> bool" where
  "shouldLog c level = greater_equal (LEVELS_get (level_name level)) (LEVELS_get (currentLevel c))"

text \<open>
  \<^verbatim>\<open>log(level, args)\<close> of the logger \<open>self\<close>. It is private to the closure and only called with
  the five level names, hence the type of \<open>level\<close>. The assembly of the line, from
  \<^verbatim>\<open>const parts: string[] = []\<close> to \<^verbatim>\<open>parts.join(' ')\<close>, is \<open>render\<close>; an exception of
  \<^verbatim>\<open>formatArgs\<close> leaves the function before anything is written.
\<close>

definition render :: "closure \<Rightarrow> string \<Rightarrow> LogLevel \<Rightarrow> string \<Rightarrow> string" where
  "render c time level message =
     (let parts0 = [];
          color = LEVEL_COLORS level;
          parts1 = (if showIcons c then parts0 @ [ICONS level] else parts0);
          parts2 = (if showTimestamp c
                    then parts1 @ [COLORS_gray @ ''['' @ time @ '']'' @ COLORS_reset]
                    else parts1);
          parts3 = (if prefix c \<noteq> [] then parts2 @ [color @ prefix c @ COLORS_reset] else parts2);
          parts4 = parts3 @ [color @ ''['' @ toUpperCase (level_name level) @ '']'' @ COLORS_reset];
          parts5 = parts4 @ [message]
      in join '' '' parts5)"

definition log :: "nat \<Rightarrow> LogLevel \<Rightarrow> jsval list \<Rightarrow> world \<Rightarrow> jserror + world" where
  "log self level args w =
     (let c = instances w ! self in
      if \<not> shouldLog c level then Inr w
      else (case formatArgs (heap w) args of
              Inl e \<Rightarrow> Inl e
            | Inr message \<Rightarrow>
                (let output = render c (now w) level message in
                 Inr (case level of
                        error \<Rightarrow> console_call console_error output w
                      | warn \<Rightarrow> console_call console_warn output w
                      | _ \<Rightarrow> console_call console_log output w))))"

definition Logger_debug :: "nat \<Rightarrow> jsval list \<Rightarrow> world \<Rightarrow> jserror + world" where
  "Logger_debug self args w = log self debug args w"

definition Logger_info :: "nat \<Rightarrow> jsval list \<Rightarrow> world \<Rightarrow> jserror + world" where
  "Logger_info self args w = log self info args w"

definition Logger_warn :: "nat \<Rightarrow> jsval list \<Rightarrow> world \<Rightarrow> jserror + world" where
  "Logger_warn self args w = log self warn args w"

definition Logger_error :: "nat \<Rightarrow> jsval list \<Rightarrow> world \<Rightarrow> jserror + world" where
  "Logger_error self args w = log self error args w"

definition Logger_success :: "nat \<Rightarrow> jsval list \<Rightarrow> world \<Rightarrow> jserror + world" where
  "Logger_success self args w = log self success args w"

text \<open>
  \<^verbatim>\<open>logger.create(newOptions)\<close>: the call of whatever the \<^verbatim>\<open>create\<close> property of the logger
  holds, the closure of lines 226 to 232 or, where it has been replaced, \<^verbatim>\<open>createLogger\<close>.
\<close>

definition Logger_create :: "nat \<Rightarrow> LoggerOptions option \<Rightarrow> world \<Rightarrow> nat \<times> world" where
  "Logger_create self newOptions w =
     (if self \<in> set (create_replaced w) then createLogger newOptions w
      else
        (let c = instances w ! self in
         createLogger
           (Some (spread \<lparr>opt_prefix = Given (prefix c),
                          opt_timestamp = Given (showTimestamp c),
                          opt_level = Given (currentLevel c),
                          opt_icons = Given (showIcons c)\<rparr> newOptions)) w))"

definition invalid_level_message :: "string \<Rightarrow> string" where
  "invalid_level_message level =
     ''Invalid log level: '' @ [CHR 0x22] @ level @ [CHR 0x22] @ ''. Valid levels: ''
       @ join '', '' (map fst LEVELS)"

definition Logger_setLevel :: "nat \<Rightarrow> string \<Rightarrow> world \<Rightarrow> jserror + world" where
  "Logger_setLevel self level w =
     (if \<not> in_LEVELS level then Inl (TypeError (invalid_level_message level))
      else Inr (w\<lparr>instances := (instances w)[self := (instances w ! self)\<lparr>currentLevel := level\<rparr>]\<rparr>))"

definition Logger_getLevel :: "nat \<Rightarrow> world \<Rightarrow> string" where
  "Logger_getLevel self w = currentLevel (instances w ! self)"

text \<open>
  The body of the module, after the declarations: \<^verbatim>\<open>const defaultLogger = createLogger()\<close>,
  then \<^verbatim>\<open>module.exports = defaultLogger\<close> and \<^verbatim>\<open>module.exports.create = createLogger\<close>, which
  assigns the \<^verbatim>\<open>create\<close> property of the default logger. It returns the default logger.
\<close>

definition module_body :: "world \<Rightarrow> nat \<times> world" where
  "module_body w =
     (let (defaultLogger, w1) = createLogger None w
      in (defaultLogger, w1\<lparr>create_replaced := defaultLogger # create_replaced w1\<rparr>))"

text \<open>The five emit methods, by the level each passes to \<^verbatim>\<open>log\<close>.\<close>

definition emit :: "LogLevel \<Rightarrow> nat \<Rightarrow> jsval list \<Rightarrow> world \<Rightarrow> jserror + world" where
  "emit level self args w =
     (case level of
        debug \<Rightarrow> Logger_debug self args w
      | info \<Rightarrow> Logger_info self args w
      | warn \<Rightarrow> Logger_warn self args w
      | error \<Rightarrow> Logger_error self args w
      | success \<Rightarrow> Logger_success self args w)"

definition console_method_of :: "LogLevel \<Rightarrow> console_method" where
  "console_method_of l = (case l of error \<Rightarrow> console_error | warn \<Rightarrow> console_warn | _ \<Rightarrow> console_log)"

section \<open>The specification's tables and layout\<close>

text \<open>
  What the specification states in words, to be compared with the program: the priority table,
  the level tag of each severity, the segments of a rendered line in their order, and the
  value a field of a child logger takes.
\<close>

definition spec_priority :: "LogLevel \<Rightarrow> nat" where
  "spec_priority l = (case l of debug \<Rightarrow> 0 | info \<Rightarrow> 1 | warn \<Rightarrow> 2 | error \<Rightarrow> 3 | success \<Rightarrow> 3)"

definition spec_tag :: "LogLevel \<Rightarrow> string" where
  "spec_tag l =
     (case l of debug \<Rightarrow> ''[DEBUG]'' | info \<Rightarrow> ''[INFO]'' | warn \<Rightarrow> ''[WARN]''
      | error \<Rightarrow> ''[ERROR]'' | success \<Rightarrow> ''[SUCCESS]'')"

definition spec_segments :: "closure \<Rightarrow> string \<Rightarrow> LogLevel \<Rightarrow> string \<Rightarrow> string list" where
  "spec_segments c time level message =
     (if showIcons c then [ICONS level] else [])
     @ (if showTimestamp c then [COLORS_gray @ ''['' @ time @ '']'' @ COLORS_reset] else [])
     @ (if prefix c \<noteq> [] then [LEVEL_COLORS level @ prefix c @ COLORS_reset] else [])
     @ [LEVEL_COLORS level @ spec_tag level @ COLORS_reset]
     @ [message]"

text \<open>
  A field of a child: the parent's current value when the overrides do not have the field,
  the value given there otherwise, where a field given as \<^verbatim>\<open>undefined\<close> is an unset field
  and takes the default of the construction.
\<close>

definition spec_inherit :: "'a field \<Rightarrow> 'a \<Rightarrow> 'a \<Rightarrow> 'a" where
  "spec_inherit override current dflt =
     (case override of Absent \<Rightarrow> current | Nullish \<Rightarrow> dflt | Given v \<Rightarrow> v)"

definition overrides_of :: "LoggerOptions option \<Rightarrow> LoggerOptions" where
  "overrides_of ov = (case ov of None \<Rightarrow> empty_options | Some opts \<Rightarrow> opts)"

text \<open>
  The text of one argument in the message, by the kind of the argument: a string as it is,
  \<^verbatim>\<open>null\<close> and \<^verbatim>\<open>undefined\<close> by their names, a BigInt by its digits and \<^verbatim>\<open>n\<close>, the other
  values that are not objects by the conversion of the language, a regular expression by its
  literal, a valid date by its ISO text; for the other objects, the text that \<^verbatim>\<open>safeStringify\<close>
  returns.
\<close>

definition spec_arg_text :: "heap \<Rightarrow> jsval \<Rightarrow> string \<Rightarrow> bool" where
  "spec_arg_text h arg t =
     (case arg of
        JSString s \<Rightarrow> t = s
      | JSNull \<Rightarrow> t = ''null''
      | JSUndefined \<Rightarrow> t = ''undefined''
      | JSBigInt i \<Rightarrow> t = decimal_int i @ ''n''
      | JSBoolean b \<Rightarrow> t = (if b then ''true'' else ''false'')
      | JSNumber x \<Rightarrow> t = Number_toString x
      | JSSymbol d \<Rightarrow> t = ''Symbol('' @ d @ '')''
      | JSFunction src outcome \<Rightarrow> t = src
      | JSRef a \<Rightarrow>
          (case heap_get h a of
             RegExpObject src flags \<Rightarrow> t = ''/'' @ src @ ''/'' @ flags
           | DateObject (Some d) text \<Rightarrow> t = d
           | _ \<Rightarrow> safeStringify h arg = Inr (Some t)))"

section \<open>Meeting an object again\<close>

text \<open>
  What it means that a value contains a reference to an already-visited object, in the order
  of the serializer's traversal (depth first, the properties and elements from first to last).
  \<open>walk h seen v seen' b\<close>: visiting the value \<open>v\<close> when the objects \<open>seen\<close> have been visited
  ends with the objects \<open>seen'\<close> visited, and \<open>b\<close> tells whether a reference to an object
  visited before was met on the way. A date counts as its text, not as an object.
\<close>

text \<open>The values the traversal finds inside an object.\<close>

definition children :: "jsobj \<Rightarrow> jsval list" where
  "children obj = (case obj of ArrayObject vs \<Rightarrow> vs | _ \<Rightarrow> map snd (own_enumerable obj))"



text \<open>
  The objects that can be reached from an object through properties and elements, and the
  values from which no object with a \<^verbatim>\<open>toJSON\<close> method of its own can be reached (a date
  has the method of the language, not one of its own).
\<close>

inductive_set reachable :: "heap \<Rightarrow> addr \<Rightarrow> addr set" for h :: heap and a :: addr where
  start: "a \<in> reachable h a"
| inside: "b \<in> reachable h a \<Longrightarrow> JSRef c \<in> set (children (heap_get h b)) \<Longrightarrow> c \<in> reachable h a"


section \<open>Example states\<close>

text \<open>
  Two loggers, as \<^verbatim>\<open>create({prefix: '[MyApp]'})\<close> and
  \<^verbatim>\<open>create({level: 'warn', timestamp: true, icons: false})\<close> make them, and a heap with the
  object \<^verbatim>\<open>obj\<close> of the test suite (\<^verbatim>\<open>{name: 'test'}\<close> with \<^verbatim>\<open>obj.self = obj\<close>), the set
  \<^verbatim>\<open>new Set([1n])\<close>, an acyclic object with a BigInt property, an invalid date, an error that
  refers to itself, a map with a BigInt value, two objects that refer to each other, and an
  array that holds one object twice.
\<close>

definition example_world :: world where
  "example_world =
     \<lparr>instances =
        [\<lparr>currentLevel = ''debug'', prefix = ''[MyApp]'', showTimestamp = False, showIcons = True\<rparr>,
         \<lparr>currentLevel = ''warn'', prefix = [], showTimestamp = True, showIcons = False\<rparr>],
      console = [],
      now = ''2024-01-15T10:30:00.000Z'',
      heap =
        [PlainObject [(''name'', JSString ''test''), (''self'', JSRef 0)],
         SetObject [JSBigInt 1],
         PlainObject [(''id'', JSBigInt 123)],
         DateObject None ''Invalid Date'',
         ErrorObject ''Error'' ''boom'' None [(''self'', JSRef 4)],
         MapObject [(JSString ''a'', JSBigInt 1)],
         PlainObject [(''child'', JSRef 7)],
         PlainObject [(''parent'', JSRef 6)],
         ArrayObject [JSRef 2, JSRef 2]],
      create_replaced = []\<rparr>"

text \<open>
  The state after the module has been loaded, with the default logger only, and the default
  logger.
\<close>

definition loaded_world :: world where
  "loaded_world =
     snd (module_body \<lparr>instances = [], console = [], now = ''2024-01-15T10:30:00.000Z'',
                       heap = [], create_replaced = []\<rparr>)"

definition defaultLogger :: nat where
  "defaultLogger =
     fst (module_body \<lparr>instances = [], console = [], now = ''2024-01-15T10:30:00.000Z'',
                       heap = [], create_replaced = []\<rparr>)"


section \<open>Properties of the logger\<close>

subsection \<open>Filtering and output\<close>

lemma emit_log: "emit level self args w = log self level args w"
  by (cases level)
     (simp_all add: emit_def Logger_debug_def Logger_info_def Logger_warn_def Logger_error_def
        Logger_success_def)

lemma LEVELS_get_level_name: "LEVELS_get (level_name l) = OwnNumber (spec_priority l)"
  by (cases l) (simp_all add: LEVELS_get_def level_name_def LEVELS_def spec_priority_def)

lemma shouldLog_valid:
  "currentLevel c = level_name T \<Longrightarrow> shouldLog c S = (spec_priority T \<le> spec_priority S)"
  by (simp add: shouldLog_def LEVELS_get_level_name greater_equal_def ToNumber_def)

lemma ToNumber_unrecognized: "map_of LEVELS k = None \<Longrightarrow> ToNumber (LEVELS_get k) = None"
  by (simp add: LEVELS_get_def ToNumber_def)

lemma shouldLog_unrecognized:
  "map_of LEVELS (currentLevel c) = None \<Longrightarrow> \<not> shouldLog c S"
  by (simp add: shouldLog_def greater_equal_def ToNumber_unrecognized split: option.splits)

lemma log_filtered: "\<not> shouldLog (instances w ! self) level \<Longrightarrow> log self level args w = Inr w"
  by (simp add: log_def)

lemma log_emitted:
  "shouldLog (instances w ! self) level \<Longrightarrow> formatArgs (heap w) args = Inr message \<Longrightarrow>
   log self level args w =
     Inr (console_call (console_method_of level) (render (instances w ! self) (now w) level message) w)"
  by (cases level) (simp_all add: log_def console_method_of_def)

lemma log_thrown:
  "shouldLog (instances w ! self) level \<Longrightarrow> formatArgs (heap w) args = Inl e \<Longrightarrow>
   log self level args w = Inl e"
  by (simp add: log_def)

lemma console_call_neq: "console_call m line w \<noteq> w"
proof
  assume "console_call m line w = w"
  then have "console (console_call m line w) = console w" by simp
  then show False by (simp add: console_call_def)
qed

lemma shouldLog_example_0: "shouldLog (instances example_world ! 0) level"
  by (cases level)
     (simp_all add: example_world_def shouldLog_def LEVELS_get_def LEVELS_def level_name_def
        greater_equal_def ToNumber_def)

text \<open>
  With a threshold \<open>T\<close> that is one of the five level names, an emit call at severity \<open>S\<close>
  returns the state as it was exactly when the priority of \<open>S\<close> is below that of \<open>T\<close>; where
  the arguments are converted to text without an exception, the call writes a line exactly
  when the priority of \<open>S\<close> is at least that of \<open>T\<close>.
\<close>

lemma emit_filtering:
  assumes "self < length (instances w)"
    and "currentLevel (instances w ! self) = level_name T"
  shows "(spec_priority S < spec_priority T \<longrightarrow> emit S self args w = Inr w)
       \<and> (emit S self args w = Inr w \<longrightarrow> spec_priority S < spec_priority T)
       \<and> (formatArgs (heap w) args = Inr message \<longrightarrow>
            ((\<exists>m line. emit S self args w = Inr (console_call m line w))
               \<longleftrightarrow> spec_priority T \<le> spec_priority S))"
proof (cases "spec_priority T \<le> spec_priority S")
  case True
  then have sl: "shouldLog (instances w ! self) S" using assms(2) by (simp add: shouldLog_valid)
  have "emit S self args w \<noteq> Inr w"
  proof (cases "formatArgs (heap w) args")
    case (Inl e)
    from log_thrown [OF sl this] show ?thesis by (simp add: emit_log)
  next
    case (Inr msg)
    from log_emitted [OF sl this] console_call_neq show ?thesis by (simp add: emit_log)
  qed
  then show ?thesis using True log_emitted [OF sl] by (auto simp: emit_log)
next
  case False
  then have "\<not> shouldLog (instances w ! self) S" using assms(2) by (simp add: shouldLog_valid)
  then have "emit S self args w = Inr w" by (simp add: emit_log log_filtered)
  then show ?thesis using False console_call_neq by (auto dest: sym)
qed

text \<open>
  Claim C1. An emit call whose priority is at least that of the threshold does not always
  produce output: the logger 0 of the example has the threshold debug, of priority 0, and its
  \<^verbatim>\<open>info\<close>, of priority 1, called with the set \<^verbatim>\<open>new Set([1n])\<close> throws a \<^verbatim>\<open>TypeError\<close> and
  writes nothing.
\<close>

theorem C1_emit_above_threshold_writes_nothing:
  "currentLevel (instances example_world ! 0) = level_name debug
   \<and> spec_priority debug \<le> spec_priority info
   \<and> heap_get (heap example_world) 1 = SetObject [JSBigInt 1]
   \<and> emit info 0 [JSRef 1] example_world
       = Inl (TypeError ''Do not know how to serialize a BigInt'')
   \<and> \<not> (\<exists>m line. emit info 0 [JSRef 1] example_world = Inr (console_call m line example_world))"
proof -
  have e: "emit info 0 [JSRef 1] example_world
       = Inl (TypeError ''Do not know how to serialize a BigInt'')"
    by code_simp
  have "currentLevel (instances example_world ! 0) = level_name debug"
    and "spec_priority debug \<le> spec_priority info"
    and "heap_get (heap example_world) 1 = SetObject [JSBigInt 1]"
    by (simp_all add: example_world_def level_name_def spec_priority_def heap_get_def)
  with e show ?thesis by simp
qed

text \<open>
  Claim C4. A line that is emitted goes to \<^verbatim>\<open>console.error\<close> for the severity error, to
  \<^verbatim>\<open>console.warn\<close> for warn, both on the standard error and so not on the standard output,
  and to \<^verbatim>\<open>console.log\<close>, the standard output, for debug, info and success.
\<close>

theorem C4_routing:
  assumes "self < length (instances w)"
    and "shouldLog (instances w ! self) level"
    and "formatArgs (heap w) args = Inr message"
  shows "\<exists>m line. emit level self args w = Inr (w\<lparr>console := console w @ [(m, line)]\<rparr>)
           \<and> (level = error \<longrightarrow> m = console_error \<and> stream_of m = stderr)
           \<and> (level = warn \<longrightarrow> m = console_warn \<and> stream_of m = stderr \<and> stream_of m \<noteq> stdout)
           \<and> (level = debug \<or> level = info \<or> level = success \<longrightarrow>
                 m = console_log \<and> stream_of m = stdout)"
  using log_emitted [OF assms(2,3)] emit_log [of level self args w]
  by (cases level) (auto simp: console_method_of_def console_call_def stream_of_def)

theorem C4_routing_witness:
  "emit success 0 [JSString ''x''] example_world =
     Inr (example_world\<lparr>console := [(console_log, render (instances example_world ! 0) (now example_world) success ''x'')]\<rparr>)
   \<and> stream_of console_log = stdout"
proof -
  have i: "(0::nat) < length (instances example_world)" by (simp add: example_world_def)
  have s: "shouldLog (instances example_world ! 0) success" by (rule shouldLog_example_0)
  have f: "formatArgs (heap example_world) [JSString ''x''] = Inr ''x''"
    by (simp add: formatArgs_def)
  have c: "console example_world = []" by (simp add: example_world_def)
  show ?thesis
    using C4_routing [OF i s f] c log_emitted [OF s f]
    by (auto simp: console_call_def console_method_of_def emit_log)
qed

subsection \<open>The layout of a line\<close>

lemma toUpperCase_level_name: "''['' @ toUpperCase (level_name l) @ '']'' = spec_tag l"
  by (cases l; hypsubst_thin; code_simp)

lemma formatArgs_strings: "formatArgs h (map JSString ss) = Inr (join '' '' ss)"
proof -
  have "map_args h (map JSString ss) = Inr (map Some ss)"
    by (induction ss) simp_all
  then show ?thesis by (simp add: formatArgs_def comp_def)
qed

lemma render_segments: "render c time level message = join '' '' (spec_segments c time level message)"
  using toUpperCase_level_name [of level]
  by (simp add: render_def spec_segments_def Let_def)

lemma arg_text_conversion:
  "spec_arg_text h arg t \<Longrightarrow>
   (case arg of JSString s \<Rightarrow> Inr (Some s) | _ \<Rightarrow> safeStringify h arg) = Inr (Some t)"
proof (cases arg)
  case (JSRef a)
  assume "spec_arg_text h arg t"
  with JSRef show ?thesis
    by (cases "heap_get h a")
       (auto simp: spec_arg_text_def safeStringify_def split: option.splits)
qed (simp_all add: spec_arg_text_def safeStringify_def String_conv_def primitive_text_def
       BigInt_toString_def)

lemma map_args_texts:
  "list_all2 (spec_arg_text h) args texts \<Longrightarrow> map_args h args = Inr (map Some texts)"
proof (induction rule: list_all2_induct)
  case Nil
  then show ?case by simp
next
  case (Cons arg t args texts)
  from arg_text_conversion [OF Cons.hyps(1)] Cons.IH show ?case by simp
qed

text \<open>
  Claim C7. The line an emit call writes is the join, with single spaces, of the segments in
  the order icon, timestamp, prefix, level tag, message: the icon if and only if \<^verbatim>\<open>showIcons\<close>
  holds, the timestamp if and only if \<^verbatim>\<open>showTimestamp\<close> holds, the prefix if and only if it is
  not empty, the tag (the upper-cased level name in brackets, in the colour of the level)
  always, and as message the texts of the arguments, each converted by its kind, joined with
  single spaces.
\<close>

theorem C7_line_layout:
  assumes "self < length (instances w)"
    and "shouldLog (instances w ! self) level"
    and "list_all2 (spec_arg_text (heap w)) args texts"
  shows "\<exists>m. emit level self args w =
           Inr (w\<lparr>console := console w @
                  [(m, join '' '' (spec_segments (instances w ! self) (now w) level
                         (join '' '' texts)))]\<rparr>)"
proof -
  from map_args_texts [OF assms(3)] have "formatArgs (heap w) args = Inr (join '' '' texts)"
    by (simp add: formatArgs_def comp_def)
  from log_emitted [OF assms(2) this] show ?thesis
    by (auto simp: emit_log render_segments console_call_def)
qed

theorem C7_line_layout_witness:
  "(\<exists>m. Logger_info 0 [JSString ''x''] example_world =
     Inr (example_world\<lparr>console :=
       [(m, [CHR 0xE2, CHR 0x84, CHR 0xB9, CHR 0xEF, CHR 0xB8, CHR 0x8F] @ '' ''
                       @ [CHR 0x1B] @ ''[36m'' @ ''[MyApp]'' @ [CHR 0x1B] @ ''[0m'' @ '' ''
                       @ [CHR 0x1B] @ ''[36m'' @ ''[INFO]'' @ [CHR 0x1B] @ ''[0m'' @ '' ''
                       @ ''x'')]\<rparr>))
   \<and> (\<exists>m. Logger_error 1
           [JSString ''Created'', JSNumber (NumFinite ''3''), JSNull, JSUndefined,
            JSBoolean True, JSBigInt 7, JSRef 2] example_world =
     Inr (example_world\<lparr>console :=
       [(m, [CHR 0x1B] @ ''[90m'' @ ''[2024-01-15T10:30:00.000Z]'' @ [CHR 0x1B] @ ''[0m'' @ '' ''
            @ [CHR 0x1B] @ ''[31m'' @ ''[ERROR]'' @ [CHR 0x1B] @ ''[0m'' @ '' ''
            @ ''Created 3 null undefined true 7n ''
            @ ''{'' @ [CHR 0x0A] @ ''  '' @ [CHR 0x22] @ ''id'' @ [CHR 0x22] @ '': ''
            @ [CHR 0x22] @ ''123n'' @ [CHR 0x22] @ [CHR 0x0A] @ ''}'')]\<rparr>))"
proof -
  have i: "(0::nat) < length (instances example_world)"
    and i1: "(1::nat) < length (instances example_world)" by (simp_all add: example_world_def)
  have s: "shouldLog (instances example_world ! 0) info" by (rule shouldLog_example_0)
  have s1: "shouldLog (instances example_world ! 1) error"
    by (simp add: example_world_def shouldLog_def LEVELS_get_def LEVELS_def level_name_def
          greater_equal_def ToNumber_def)
  have f: "list_all2 (spec_arg_text (heap example_world)) [JSString ''x''] [''x'']"
    by (simp add: spec_arg_text_def)
  let ?obj = "''{'' @ [CHR 0x0A] @ ''  '' @ [CHR 0x22] @ ''id'' @ [CHR 0x22] @ '': ''
            @ [CHR 0x22] @ ''123n'' @ [CHR 0x22] @ [CHR 0x0A] @ ''}''"
  have o: "safeStringify (heap example_world) (JSRef 2) = Inr (Some ?obj)" by code_simp
  have h2: "heap_get (heap example_world) 2 = PlainObject [(''id'', JSBigInt 123)]"
    by (simp add: example_world_def heap_get_def)
  have d: "decimal_int 7 = ''7''" by code_simp
  have f1: "list_all2 (spec_arg_text (heap example_world))
              [JSString ''Created'', JSNumber (NumFinite ''3''), JSNull, JSUndefined,
               JSBoolean True, JSBigInt 7, JSRef 2]
              [''Created'', ''3'', ''null'', ''undefined'', ''true'', ''7n'', ?obj]"
    using o h2 d by (simp add: spec_arg_text_def Number_toString_def)
  have c: "console example_world = []"
    and n: "instances example_world ! 0 = \<lparr>currentLevel = ''debug'', prefix = ''[MyApp]'',
              showTimestamp = False, showIcons = True\<rparr>"
    and n1: "instances example_world ! 1 = \<lparr>currentLevel = ''warn'', prefix = [],
              showTimestamp = True, showIcons = False\<rparr>"
    and t: "now example_world = ''2024-01-15T10:30:00.000Z''"
    by (simp_all add: example_world_def)
  have a: "\<exists>m. Logger_info 0 [JSString ''x''] example_world =
     Inr (example_world\<lparr>console :=
       [(m, [CHR 0xE2, CHR 0x84, CHR 0xB9, CHR 0xEF, CHR 0xB8, CHR 0x8F] @ '' ''
                       @ [CHR 0x1B] @ ''[36m'' @ ''[MyApp]'' @ [CHR 0x1B] @ ''[0m'' @ '' ''
                       @ [CHR 0x1B] @ ''[36m'' @ ''[INFO]'' @ [CHR 0x1B] @ ''[0m'' @ '' ''
                       @ ''x'')]\<rparr>)"
    using C7_line_layout [OF i s f] c n
    by (simp add: emit_def spec_segments_def ICONS_def LEVEL_COLORS_def COLORS_cyan_def
          COLORS_reset_def ESC_def spec_tag_def)
  have b: "\<exists>m. Logger_error 1
           [JSString ''Created'', JSNumber (NumFinite ''3''), JSNull, JSUndefined,
            JSBoolean True, JSBigInt 7, JSRef 2] example_world =
     Inr (example_world\<lparr>console :=
       [(m, [CHR 0x1B] @ ''[90m'' @ ''[2024-01-15T10:30:00.000Z]'' @ [CHR 0x1B] @ ''[0m'' @ '' ''
            @ [CHR 0x1B] @ ''[31m'' @ ''[ERROR]'' @ [CHR 0x1B] @ ''[0m'' @ '' ''
            @ ''Created 3 null undefined true 7n '' @ ?obj)]\<rparr>)"
    using C7_line_layout [OF i1 s1 f1] c n1 t
    by (simp add: emit_def spec_segments_def LEVEL_COLORS_def COLORS_red_def COLORS_gray_def
          COLORS_reset_def ESC_def spec_tag_def)
  from a b show ?thesis by simp
qed

subsection \<open>Setting the level\<close>

lemma setLevel_valid_name:
  "map_of LEVELS level = Some n \<Longrightarrow> self < length (instances w) \<Longrightarrow>
   \<exists>w'. Logger_setLevel self level w = Inr w' \<and> Logger_getLevel self w' = level"
  by (simp add: Logger_setLevel_def in_LEVELS_def Logger_getLevel_def)

lemma setLevel_unknown_name:
  "\<not> in_LEVELS level \<Longrightarrow>
   Logger_setLevel self level w = Inl (TypeError (invalid_level_message level))"
  by (simp add: Logger_setLevel_def)

lemma invalid_level_message_text:
  "invalid_level_message level =
     ''Invalid log level: '' @ [CHR 0x22] @ level @ [CHR 0x22]
       @ ''. Valid levels: debug, info, warn, error, success''"
  by (simp add: invalid_level_message_def LEVELS_def)

text \<open>
  Claim C2. \<^verbatim>\<open>setLevel\<close> tests its argument with the \<^verbatim>\<open>in\<close> operator, which also finds the
  names \<^verbatim>\<open>LEVELS\<close> inherits. The name \<^verbatim>\<open>toString\<close>, which is none of the five level names,
  is accepted: the call does not throw, and \<^verbatim>\<open>getLevel\<close>, which returned \<^verbatim>\<open>debug\<close> before,
  returns \<^verbatim>\<open>toString\<close> after it.
\<close>

theorem C2_setLevel_accepts_inherited_name:
  "map_of LEVELS ''toString'' = None
   \<and> Logger_getLevel 0 example_world = ''debug''
   \<and> (case Logger_setLevel 0 ''toString'' example_world of
         Inl e \<Rightarrow> False
       | Inr w' \<Rightarrow> Logger_getLevel 0 w' = ''toString'')"
  by (simp add: Logger_setLevel_def in_LEVELS_def Object_prototype_keys_def LEVELS_def
        Logger_getLevel_def example_world_def)

text \<open>
  Claim C9. A logger constructed with a level that is none of the five names keeps it as it is:
  \<^verbatim>\<open>getLevel\<close> returns it, and each of the five emit methods returns the state unchanged,
  whatever the arguments. After a \<^verbatim>\<open>setLevel\<close> with one of the five names the logger filters
  by the priority of that name.
\<close>

theorem C9_unrecognized_level_silences:
  assumes "opt_level opts = Given T"
    and "map_of LEVELS T = None"
    and "createLogger (Some opts) w = (lg, w1)"
  shows "Logger_getLevel lg w1 = T
       \<and> Logger_debug lg args w1 = Inr w1
       \<and> Logger_info lg args w1 = Inr w1
       \<and> Logger_warn lg args w1 = Inr w1
       \<and> Logger_error lg args w1 = Inr w1
       \<and> Logger_success lg args w1 = Inr w1
       \<and> (\<forall>v w2. Logger_setLevel lg (level_name v) w1 = Inr w2 \<longrightarrow>
             Logger_getLevel lg w2 = level_name v
             \<and> shouldLog (instances w2 ! lg) S = (spec_priority v \<le> spec_priority S))"
proof -
  have lg: "lg = length (instances w)" and w1: "instances w1 ! lg = \<lparr>currentLevel = T,
      prefix = nullish_coalesce (opt_prefix opts) [],
      showTimestamp = nullish_coalesce (opt_timestamp opts) False,
      showIcons = nullish_coalesce (opt_icons opts) True\<rparr>"
    and len: "lg < length (instances w1)"
    using assms(1,3) by (auto simp: createLogger_def nullish_coalesce_def Let_def)
  have cur: "currentLevel (instances w1 ! lg) = T" using w1 by simp
  then have no: "\<not> shouldLog (instances w1 ! lg) l" for l
    using assms(2) shouldLog_unrecognized by simp
  have set: "Logger_getLevel lg w2 = level_name v
             \<and> shouldLog (instances w2 ! lg) S = (spec_priority v \<le> spec_priority S)"
    if "Logger_setLevel lg (level_name v) w1 = Inr w2" for v w2
  proof -
    from that len have "currentLevel (instances w2 ! lg) = level_name v"
      by (auto simp: Logger_setLevel_def split: if_splits)
    then show ?thesis by (simp add: Logger_getLevel_def shouldLog_valid)
  qed
  show ?thesis
    using cur no set
    by (simp add: Logger_getLevel_def Logger_debug_def Logger_info_def Logger_warn_def
          Logger_error_def Logger_success_def log_filtered)
qed

theorem C9_unrecognized_level_silences_witness:
  "Logger_getLevel 2 (snd (createLogger (Some (empty_options\<lparr>opt_level := Given ''verbose''\<rparr>)) example_world)) = ''verbose''
   \<and> Logger_error 2 [JSRef 1] (snd (createLogger (Some (empty_options\<lparr>opt_level := Given ''verbose''\<rparr>)) example_world))
       = Inr (snd (createLogger (Some (empty_options\<lparr>opt_level := Given ''verbose''\<rparr>)) example_world))"
proof -
  let ?o = "empty_options\<lparr>opt_level := Given ''verbose''\<rparr>"
  have a: "opt_level ?o = Given ''verbose''" by simp
  have b: "map_of LEVELS ''verbose'' = None" by (simp add: LEVELS_def)
  have c: "createLogger (Some ?o) example_world = (2, snd (createLogger (Some ?o) example_world))"
    by (simp add: createLogger_def example_world_def Let_def)
  show ?thesis
    using C9_unrecognized_level_silences [OF a b c, of "[JSRef 1]"] by simp
qed

subsection \<open>What the operations change\<close>

lemma log_instances: "log self level args w = Inr w' \<Longrightarrow> instances w' = instances w"
  by (cases level)
     (auto simp: log_def Let_def console_call_def split: if_splits sum.splits)

lemma create_appends:
  "fst (Logger_create self ov w) = length (instances w)
   \<and> take (length (instances w)) (instances (snd (Logger_create self ov w))) = instances w
   \<and> length (instances (snd (Logger_create self ov w))) = Suc (length (instances w))"
  by (simp add: Logger_create_def createLogger_def Let_def)

lemma create_instances:
  "self \<notin> set (create_replaced w) \<Longrightarrow> Logger_create self ov w = (child, w1) \<Longrightarrow>
   child = length (instances w) \<and> create_replaced w1 = create_replaced w \<and>
   instances w1 = instances w @
     [\<lparr>currentLevel = spec_inherit (opt_level (overrides_of ov)) (currentLevel (instances w ! self)) ''debug'',
       prefix = spec_inherit (opt_prefix (overrides_of ov)) (prefix (instances w ! self)) [],
       showTimestamp = spec_inherit (opt_timestamp (overrides_of ov)) (showTimestamp (instances w ! self)) False,
       showIcons = spec_inherit (opt_icons (overrides_of ov)) (showIcons (instances w ! self)) True\<rparr>]"
  by (cases ov)
     (auto simp: Logger_create_def createLogger_def Let_def spread_def spread_field_def
        nullish_coalesce_def spec_inherit_def overrides_of_def empty_options_def
        split: field.splits)

lemma setLevel_instances:
  "Logger_setLevel self lv w = Inr w' \<Longrightarrow>
   instances w' = (instances w)[self := (instances w ! self)\<lparr>currentLevel := lv\<rparr>]"
  by (auto simp: Logger_setLevel_def split: if_splits)

text \<open>
  Claim C10. The five emit methods and \<^verbatim>\<open>create\<close> leave every existing instance as it is
  (\<^verbatim>\<open>create\<close> adds one instance at the end); \<^verbatim>\<open>getLevel\<close> is a function of the state and
  returns no state. A \<^verbatim>\<open>setLevel\<close> that returns changes the \<^verbatim>\<open>currentLevel\<close> of its own
  instance and nothing else: no operation changes a \<^verbatim>\<open>prefix\<close>, \<^verbatim>\<open>showTimestamp\<close> or
  \<^verbatim>\<open>showIcons\<close>.
\<close>

theorem C10_frame:
  assumes "self < length (instances w)"
  shows "(\<forall>level args w'. emit level self args w = Inr w' \<longrightarrow> instances w' = instances w)
       \<and> (\<forall>ov. take (length (instances w)) (instances (snd (Logger_create self ov w))) = instances w)
       \<and> (\<forall>lv w'. Logger_setLevel self lv w = Inr w' \<longrightarrow>
             length (instances w') = length (instances w)
             \<and> currentLevel (instances w' ! self) = lv
             \<and> (\<forall>j<length (instances w).
                   prefix (instances w' ! j) = prefix (instances w ! j)
                   \<and> showTimestamp (instances w' ! j) = showTimestamp (instances w ! j)
                   \<and> showIcons (instances w' ! j) = showIcons (instances w ! j)
                   \<and> (j \<noteq> self \<longrightarrow> currentLevel (instances w' ! j) = currentLevel (instances w ! j))))"
proof (intro conjI allI impI)
  fix level args w' assume "emit level self args w = Inr w'"
  then show "instances w' = instances w" by (simp add: emit_log log_instances)
next
  fix ov
  from create_appends [of self ov w]
  show "take (length (instances w)) (instances (snd (Logger_create self ov w))) = instances w"
    by simp
next
  fix lv w' assume s: "Logger_setLevel self lv w = Inr w'"
  note i = setLevel_instances [OF s]
  show "length (instances w') = length (instances w)" using i by simp
  show "currentLevel (instances w' ! self) = lv" using i assms by simp
  fix j assume j: "j < length (instances w)"
  show "prefix (instances w' ! j) = prefix (instances w ! j)"
    using i j by (cases "j = self") simp_all
  show "showTimestamp (instances w' ! j) = showTimestamp (instances w ! j)"
    using i j by (cases "j = self") simp_all
  show "showIcons (instances w' ! j) = showIcons (instances w ! j)"
    using i j by (cases "j = self") simp_all
  assume "j \<noteq> self"
  then show "currentLevel (instances w' ! j) = currentLevel (instances w ! j)"
    using i j by simp
qed

theorem C10_frame_witness:
  "instances (snd (Logger_create 0 None example_world)) ! 0 = instances example_world ! 0
   \<and> (case Logger_info 0 [JSString ''x''] example_world of
         Inl e \<Rightarrow> False | Inr w' \<Rightarrow> instances w' = instances example_world)
   \<and> (case Logger_setLevel 0 ''error'' example_world of
         Inl e \<Rightarrow> False
       | Inr w' \<Rightarrow> prefix (instances w' ! 0) = ''[MyApp]'' \<and> showIcons (instances w' ! 0)
                  \<and> \<not> showTimestamp (instances w' ! 0)
                  \<and> currentLevel (instances w' ! 0) = ''error''
                  \<and> currentLevel (instances w' ! 1) = ''warn'')"
proof -
  have i: "(0::nat) < length (instances example_world)" by (simp add: example_world_def)
  have l: "length (instances example_world) = 2" by (simp add: example_world_def)
  obtain w1 where a: "Logger_info 0 [JSString ''x''] example_world = Inr w1"
    using log_emitted [OF shouldLog_example_0, of "[JSString ''x'']" "''x''" info]
    by (simp add: Logger_info_def formatArgs_def)
  have a': "emit info 0 [JSString ''x''] example_world = Inr w1" using a by (simp add: emit_def)
  obtain w2 where b: "Logger_setLevel 0 ''error'' example_world = Inr w2"
    by (simp add: Logger_setLevel_def in_LEVELS_def LEVELS_def)
  have c: "instances example_world = [\<lparr>currentLevel = ''debug'', prefix = ''[MyApp]'', showTimestamp = False, showIcons = True\<rparr>,
                   \<lparr>currentLevel = ''warn'', prefix = [], showTimestamp = True, showIcons = False\<rparr>]"
    by (simp add: example_world_def)
  from C10_frame [OF i] have
    r1: "instances w1 = instances example_world" and
    r2: "take 2 (instances (snd (Logger_create 0 None example_world))) = instances example_world" and
    r3: "length (instances w2) = 2 \<and> currentLevel (instances w2 ! 0) = ''error''
        \<and> (\<forall>j<2. prefix (instances w2 ! j) = prefix (instances example_world ! j)
                   \<and> showTimestamp (instances w2 ! j) = showTimestamp (instances example_world ! j)
                   \<and> showIcons (instances w2 ! j) = showIcons (instances example_world ! j)
                   \<and> (j \<noteq> 0 \<longrightarrow> currentLevel (instances w2 ! j) = currentLevel (instances example_world ! j)))"
    using a' b l by auto
  from r2 have r2': "instances (snd (Logger_create 0 None example_world)) ! 0 = instances example_world ! 0"
    by (metis i l nth_take)
  from r3 have r3': "prefix (instances w2 ! 0) = ''[MyApp]'' \<and> showIcons (instances w2 ! 0)
                  \<and> \<not> showTimestamp (instances w2 ! 0)
                  \<and> currentLevel (instances w2 ! 0) = ''error''
                  \<and> currentLevel (instances w2 ! 1) = ''warn''"
    using c by (simp add: numeral_2_eq_2 less_Suc_eq)
  show ?thesis using r1 r2' r3' a b by simp
qed

subsection \<open>Child loggers\<close>

text \<open>
  \<^verbatim>\<open>create\<close> on a logger that has the \<^verbatim>\<open>create\<close> method it was made with makes a new
  instance, different from its parent, and leaves the parent as it is. Each field of the child
  is the parent's current value unless the overrides have the field, which then decides;
  without overrides the child has the parent's four values. A later \<^verbatim>\<open>setLevel\<close> on the
  parent does not change the child, nor one on the child the parent.
\<close>

lemma create_child_inherits:
  assumes "self < length (instances w)"
    and "self \<notin> set (create_replaced w)"
    and "Logger_create self ov w = (child, w1)"
  shows "child \<noteq> self \<and> child < length (instances w1) \<and> self < length (instances w1)
       \<and> instances w1 ! self = instances w ! self
       \<and> currentLevel (instances w1 ! child)
            = spec_inherit (opt_level (overrides_of ov)) (currentLevel (instances w ! self)) ''debug''
       \<and> prefix (instances w1 ! child)
            = spec_inherit (opt_prefix (overrides_of ov)) (prefix (instances w ! self)) []
       \<and> showTimestamp (instances w1 ! child)
            = spec_inherit (opt_timestamp (overrides_of ov)) (showTimestamp (instances w ! self)) False
       \<and> showIcons (instances w1 ! child)
            = spec_inherit (opt_icons (overrides_of ov)) (showIcons (instances w ! self)) True
       \<and> (ov = None \<longrightarrow> instances w1 ! child = instances w ! self)
       \<and> (\<forall>lv w2. Logger_setLevel self lv w1 = Inr w2 \<longrightarrow>
             instances w2 ! child = instances w1 ! child \<and> Logger_getLevel self w2 = lv)
       \<and> (\<forall>lv w2. Logger_setLevel child lv w1 = Inr w2 \<longrightarrow>
             instances w2 ! self = instances w1 ! self \<and> Logger_getLevel child w2 = lv)"
proof -
  note c = create_instances [OF assms(2,3)]
  from c assms(1) have ne: "child \<noteq> self" and lc: "child < length (instances w1)"
    and ls: "self < length (instances w1)" by auto
  from c assms(1) have same: "instances w1 ! self = instances w ! self"
    by (simp add: nth_append)
  from c have ch: "instances w1 ! child =
     \<lparr>currentLevel = spec_inherit (opt_level (overrides_of ov)) (currentLevel (instances w ! self)) ''debug'',
       prefix = spec_inherit (opt_prefix (overrides_of ov)) (prefix (instances w ! self)) [],
       showTimestamp = spec_inherit (opt_timestamp (overrides_of ov)) (showTimestamp (instances w ! self)) False,
       showIcons = spec_inherit (opt_icons (overrides_of ov)) (showIcons (instances w ! self)) True\<rparr>"
    by simp
  have none: "ov = None \<longrightarrow> instances w1 ! child = instances w ! self"
    using ch by (simp add: overrides_of_def empty_options_def spec_inherit_def)
  have p: "instances w2 ! child = instances w1 ! child \<and> Logger_getLevel self w2 = lv"
    if "Logger_setLevel self lv w1 = Inr w2" for lv w2
    using setLevel_instances [OF that] ne ls by (simp add: Logger_getLevel_def)
  have q: "instances w2 ! self = instances w1 ! self \<and> Logger_getLevel child w2 = lv"
    if "Logger_setLevel child lv w1 = Inr w2" for lv w2
    using setLevel_instances [OF that] ne lc by (simp add: Logger_getLevel_def)
  show ?thesis using ne lc ls same ch none p q by simp
qed

text \<open>
  Claim C5. The module assigns \<^verbatim>\<open>createLogger\<close> to the \<^verbatim>\<open>create\<close> property of the default
  logger, so a child of the default logger does not take the current configuration of its
  parent: after \<^verbatim>\<open>setLevel('error')\<close> on the default logger, the level of the logger that its
  \<^verbatim>\<open>create()\<close> returns is \<^verbatim>\<open>debug\<close>, where the level of the default logger is \<^verbatim>\<open>error\<close>.
\<close>

theorem C5_default_logger_child_takes_defaults:
  "defaultLogger = 0
   \<and> (case Logger_setLevel defaultLogger ''error'' loaded_world of
         Inl e \<Rightarrow> False
       | Inr w \<Rightarrow>
           Logger_getLevel defaultLogger w = ''error''
           \<and> Logger_getLevel (fst (Logger_create defaultLogger None w))
                 (snd (Logger_create defaultLogger None w)) = ''debug'')"
  by (simp add: defaultLogger_def loaded_world_def module_body_def createLogger_def
        Logger_setLevel_def Logger_getLevel_def Logger_create_def in_LEVELS_def LEVELS_def
        empty_options_def nullish_coalesce_def Let_def)

section \<open>Properties of the serializer\<close>

subsection \<open>Texts and their parts\<close>

lemma startsWith_iff: "startsWith s sub \<longleftrightarrow> (\<exists>q. s = sub @ q)"
  by (induction s sub rule: startsWith.induct) auto

lemma contains_iff: "contains s sub \<longleftrightarrow> (\<exists>p q. s = p @ sub @ q)"
proof (induction s)
  case Nil
  then show ?case by simp
next
  case (Cons c cs)
  show ?case
  proof
    assume "contains (c # cs) sub"
    then consider "startsWith (c # cs) sub" | "contains cs sub" by auto
    then show "\<exists>p q. c # cs = p @ sub @ q"
    proof cases
      case 1
      then obtain q where "c # cs = sub @ q" by (auto simp: startsWith_iff)
      then have "c # cs = [] @ sub @ q" by simp
      then show ?thesis by blast
    next
      case 2
      with Cons obtain p q where "cs = p @ sub @ q" by blast
      then have "c # cs = (c # p) @ sub @ q" by simp
      then show ?thesis by blast
    qed
  next
    assume "\<exists>p q. c # cs = p @ sub @ q"
    then obtain p q where e: "c # cs = p @ sub @ q" by blast
    show "contains (c # cs) sub"
    proof (cases p)
      case Nil
      with e have "startsWith (c # cs) sub" by (auto simp: startsWith_iff)
      then show ?thesis by simp
    next
      case (Cons d ds)
      with e have "cs = ds @ sub @ q" by simp
      with Cons.IH have "contains cs sub" by blast
      then show ?thesis by simp
    qed
  qed
qed








subsection \<open>The traversal with the replacer of \<^verbatim>\<open>safeStringify\<close>\<close>




























subsection \<open>Big integers\<close>

lemma digit_char_digit: "d < 10 \<Longrightarrow> is_digit (digit_char d) \<and> digit_value (digit_char d) = d"
proof -
  assume "d < 10"
  then have "d \<in> set [0..<10]" by simp
  moreover have "\<forall>d\<in>set [0..<10]. is_digit (digit_char d) \<and> digit_value (digit_char d) = d"
    by code_simp
  ultimately show ?thesis by blast
qed

lemma parse_decimal_snoc: "parse_decimal (s @ [c]) = 10 * parse_decimal s + digit_value c"
  by (simp add: parse_decimal_def)

lemma decimal_digits: "list_all is_digit (decimal n) \<and> parse_decimal (decimal n) = n"
proof (induction n rule: decimal.induct)
  case (1 n)
  show ?case
  proof (cases "n < 10")
    case True
    then have "decimal n = [digit_char n]" by (simp add: decimal.simps)
    with digit_char_digit [OF True] show ?thesis by (simp add: parse_decimal_def)
  next
    case False
    then have d: "decimal n = decimal (n div 10) @ [digit_char (n mod 10)]"
      by (subst decimal.simps) simp
    have "n mod 10 < 10" by simp
    from digit_char_digit [OF this] "1.IH" [OF False] show ?thesis
      by (simp add: d parse_decimal_snoc)
  qed
qed

lemma join_snoc: "join sep (xs @ [m]) = (if xs = [] then m else join sep xs @ sep @ m)"
  by (induction sep xs rule: join.induct) auto

lemma contains_render: "contains (render c time level message) message"
proof -
  let ?xs = "(if showIcons c then [ICONS level] else [])
     @ (if showTimestamp c then [COLORS_gray @ ''['' @ time @ '']'' @ COLORS_reset] else [])
     @ (if prefix c \<noteq> [] then [LEVEL_COLORS level @ prefix c @ COLORS_reset] else [])
     @ [LEVEL_COLORS level @ spec_tag level @ COLORS_reset]"
  have "render c time level message = join '' '' (?xs @ [message])"
    by (simp add: render_segments spec_segments_def)
  then have "render c time level message = (join '' '' ?xs @ '' '') @ message @ []"
    by (simp add: join_snoc)
  then show ?thesis unfolding contains_iff by blast
qed

text \<open>
  Claim C8. A BigInt argument is rendered as its decimal notation, a minus sign for a negative
  value and then the decimal digits of the absolute value, followed by \<^verbatim>\<open>n\<close>; the line
  that an emit call writes for it contains this text, \<^verbatim>\<open>123n\<close> for the BigInt 123. A BigInt
  inside an object or array is rendered by the replacer as the same text, as a JSON string.
\<close>

theorem C8_bigint:
  "safeStringify (heap w) (JSBigInt i) = Inr (Some (decimal_int i @ ''n''))
   \<and> decimal_int i = (if i < 0 then ''-'' else []) @ decimal (nat \<bar>i\<bar>)
   \<and> list_all is_digit (decimal (nat \<bar>i\<bar>)) \<and> int (parse_decimal (decimal (nat \<bar>i\<bar>))) = \<bar>i\<bar>
   \<and> decimal_int 123 = ''123''
   \<and> formatArgs (heap w) [JSBigInt 123] = Inr ''123n''
   \<and> (shouldLog (instances w ! self) level \<longrightarrow>
         (\<exists>m line. emit level self [JSBigInt i] w = Inr (w\<lparr>console := console w @ [(m, line)]\<rparr>)
            \<and> contains line (decimal_int i @ ''n'')))
   \<and> SerializeJSONProperty (heap w) (Some replacer) gap stack indent seen (JSBigInt i)
        = Inr (Some (QuoteJSONString (decimal_int i @ ''n'')), seen)"
proof -
  have s: "safeStringify (heap w) (JSBigInt i) = Inr (Some (decimal_int i @ ''n''))" for i
    by (simp add: safeStringify_def BigInt_toString_def)
  have d: "decimal_int i = (if i < 0 then ''-'' else []) @ decimal (nat \<bar>i\<bar>)"
    by (simp add: decimal_int_def)
  have g: "list_all is_digit (decimal (nat \<bar>i\<bar>)) \<and> int (parse_decimal (decimal (nat \<bar>i\<bar>))) = \<bar>i\<bar>"
    using decimal_digits [of "nat \<bar>i\<bar>"] by simp
  have c: "decimal_int 123 = ''123''" by code_simp
  have f: "formatArgs (heap w) [JSBigInt i] = Inr (decimal_int i @ ''n'')" for i
    using s [of i] by (simp add: formatArgs_def)
  have e: "\<exists>m line. emit level self [JSBigInt i] w = Inr (w\<lparr>console := console w @ [(m, line)]\<rparr>)
            \<and> contains line (decimal_int i @ ''n'')"
    if sl: "shouldLog (instances w ! self) level"
  proof -
    let ?line = "render (instances w ! self) (now w) level (decimal_int i @ ''n'')"
    have "emit level self [JSBigInt i] w
            = Inr (w\<lparr>console := console w @ [(console_method_of level, ?line)]\<rparr>)"
      using log_emitted [OF sl f [of i]] by (simp add: emit_log console_call_def)
    moreover have "contains ?line (decimal_int i @ ''n'')" by (rule contains_render)
    ultimately show ?thesis by blast
  qed
  have r: "SerializeJSONProperty (heap w) (Some replacer) gap stack indent seen (JSBigInt i)
        = Inr (Some (QuoteJSONString (decimal_int i @ ''n'')), seen)"
    by (simp add: SerializeJSONProperty.simps toJSON_def replacer_def BigInt_toString_def)
  from s d g c f [of 123] e r show ?thesis by (simp add: c)
qed

theorem C8_bigint_witness:
  "(\<exists>m line. emit info 0 [JSBigInt 123] example_world
       = Inr (example_world\<lparr>console := console example_world @ [(m, line)]\<rparr>)
      \<and> contains line ''123n'')
   \<and> safeStringify (heap example_world) (JSRef 2)
       = Inr (Some (''{'' @ [CHR 0x0A] @ ''  '' @ [CHR 0x22] @ ''id'' @ [CHR 0x22] @ '': ''
                      @ [CHR 0x22] @ ''123n'' @ [CHR 0x22] @ [CHR 0x0A] @ ''}''))"
proof -
  have n: "safeStringify (heap example_world) (JSRef 2)
       = Inr (Some (''{'' @ [CHR 0x0A] @ ''  '' @ [CHR 0x22] @ ''id'' @ [CHR 0x22] @ '': ''
                      @ [CHR 0x22] @ ''123n'' @ [CHR 0x22] @ [CHR 0x0A] @ ''}''))"
    by code_simp
  have c: "decimal_int 123 = ''123''" by code_simp
  from C8_bigint [where w = example_world and i = 123 and self = 0 and level = info
      and gap = "[]" and stack = "[]" and indent = "[]" and seen = "{}"]
    shouldLog_example_0 [of info] c n
  show ?thesis by simp
qed

subsection \<open>Exceptions of an emit call\<close>

text \<open>
  Claim C3. The \<^verbatim>\<open>try\<close> block of \<^verbatim>\<open>safeStringify\<close> covers the general object case only. An
  emit call with the set \<^verbatim>\<open>new Set([1n])\<close> throws the \<^verbatim>\<open>TypeError\<close> of \<^verbatim>\<open>JSON.stringify\<close>,
  where the plain textual conversion of the set is \<^verbatim>\<open>[object Set]\<close>; so does one with a
  map that has a BigInt value; one with an invalid date throws the \<^verbatim>\<open>RangeError\<close> of
  \<^verbatim>\<open>toISOString\<close>; one with an error that has itself as a property throws the
  \<^verbatim>\<open>TypeError\<close> for a circular structure.
\<close>

theorem C3_emit_throws:
  "emit info 0 [JSRef 1] example_world = Inl (TypeError ''Do not know how to serialize a BigInt'')
   \<and> String_conv (heap example_world) (JSRef 1) = Inr ''[object Set]''
   \<and> emit info 0 [JSRef 5] example_world = Inl (TypeError ''Do not know how to serialize a BigInt'')
   \<and> emit info 0 [JSRef 3] example_world = Inl (RangeError ''Invalid time value'')
   \<and> emit error 0 [JSRef 4] example_world = Inl (TypeError ''Converting circular structure to JSON'')"
  by code_simp

end
